theory Spec2Isabelle
  imports Main
begin

section \<open>JavaScript values and promises\<close>

text \<open>
  Values that travel through the handlers: request and response bodies, the decoded
  token payload, the result of a query. \<open>truthy\<close> is JavaScript's boolean coercion,
  which the source uses in \<^verbatim>\<open>if (!users)\<close>, \<^verbatim>\<open>if (!token)\<close> and \<^verbatim>\<open>a || b\<close>.
\<close>

datatype json =
    JUndefined
  | JNull
  | JBool bool
  | JNum int
  | JStr string
  | JArray "json list"
  | JObject "(string \<times> json) list"

fun truthy :: "json \<Rightarrow> bool" where
  "truthy JUndefined = False"
| "truthy JNull = False"
| "truthy (JBool b) = b"
| "truthy (JNum n) = (n \<noteq> 0)"
| "truthy (JStr s) = (s \<noteq> [])"
| "truthy (JArray xs) = True"
| "truthy (JObject kvs) = True"

text \<open>
  What \<^verbatim>\<open>await e\<close> (or a call inside \<^verbatim>\<open>try\<close>) gives: the promise rejects or the call
  throws with an error message, or it yields a value.
\<close>

datatype 'a awaited = Throws string | Returns 'a

section \<open>utils/errorHandler.util.js\<close>

record ApiError =
  message :: string
  status :: nat
  errors :: json

definition new_ApiError :: "string \<Rightarrow> nat \<Rightarrow> json \<Rightarrow> ApiError" where
  "new_ApiError msg statusCode errs = \<lparr>message = msg, status = statusCode, errors = errs\<rparr>"

section \<open>Process environment and the libraries the handlers call\<close>

text \<open>
  \<open>JWT_SECRET\<close> is \<^verbatim>\<open>process.env.JWT_SECRET\<close> (\<open>None\<close> when unset);
  \<open>SALT_ROUNDS\<close> is \<^verbatim>\<open>parseInt(process.env.SALT_ROUNDS)\<close> (\<open>None\<close> for NaN).
\<close>

record env =
  JWT_SECRET :: "string option"
  SALT_ROUNDS :: "int option"

text \<open>\<^verbatim>\<open>v || d\<close> on a string that may be undefined: the empty string is falsy too.\<close>

definition or_default :: "string option \<Rightarrow> string \<Rightarrow> string" where
  "or_default v d = (case v of None \<Rightarrow> d | Some s \<Rightarrow> if s = [] then d else s)"

text \<open>
  The jsonwebtoken package is not part of the repository: it is a parameter of the
  model. \<open>sign payload key expiresIn\<close> throws or returns a token.
  \<open>verify token key\<close> throws synchronously, or calls back with an error, or calls
  back with the decoded payload.
\<close>

datatype verify_result = VerifyThrows string | VerifyError string | VerifyOk json

record jwt_lib =
  sign :: "json \<Rightarrow> string \<Rightarrow> string \<Rightarrow> string awaited"
  verify :: "string \<Rightarrow> string \<Rightarrow> verify_result"

section \<open>middlewares/auth.middleware.js\<close>

record request =
  authorization :: "string option"
  user :: "json option"

text \<open>What a middleware hands to Express: \<^verbatim>\<open>next()\<close> or \<^verbatim>\<open>next(err)\<close>.\<close>

datatype next_call = Next request | NextError ApiError

text \<open>\<^verbatim>\<open>s.split(c)\<close> for a one-character separator: one more segment than separators.\<close>

fun split_on :: "char \<Rightarrow> string \<Rightarrow> string list" where
  "split_on c [] = [[]]"
| "split_on c (x # xs) =
     (if x = c then [] # split_on c xs
      else (case split_on c xs of [] \<Rightarrow> [[x]] | w # ws \<Rightarrow> (x # w) # ws))"

text \<open>
  \<^verbatim>\<open>tokenHeader && tokenHeader.split(" ")[1]\<close>: \<open>None\<close> is undefined (no header, or
  no second segment); an empty header is returned as it is.
\<close>

definition header_token :: "string option \<Rightarrow> string option" where
  "header_token tokenHeader =
     (case tokenHeader of
        None \<Rightarrow> None
      | Some h \<Rightarrow>
          if h = [] then Some []
          else (case split_on (CHR '' '') h of
                  a # t # rest \<Rightarrow> Some t
                | _ \<Rightarrow> None))"

text \<open>
  The middleware returns the calls it made to \<^verbatim>\<open>jwt.verify\<close> (token and key, in
  order) and what it passed to \<^verbatim>\<open>next\<close>.
\<close>

definition token_not_found :: ApiError where
  "token_not_found =
     new_ApiError ''Token not found'' 401 (JObject [(''token'', JStr ''Token not found'')])"

definition authMiddleware ::
  "jwt_lib \<Rightarrow> env \<Rightarrow> request \<Rightarrow> (string \<times> string) list \<times> next_call" where
  "authMiddleware J e req =
     (case header_token (authorization req) of
        None \<Rightarrow> ([], NextError token_not_found)
      | Some token \<Rightarrow>
          if token = [] then ([], NextError token_not_found)
          else
            (let key = or_default (JWT_SECRET e) ''secret'' in
             case verify J token key of
               VerifyThrows m \<Rightarrow>
                 ([(token, key)], NextError (new_ApiError ''Error authenticating user'' 401 (JStr m)))
             | VerifyError m \<Rightarrow>
                 ([(token, key)], NextError (new_ApiError ''Error authenticating user'' 401 (JStr m)))
             | VerifyOk u \<Rightarrow>
                 ([(token, key)], Next (req\<lparr>user := Some u\<rparr>))))"

section \<open>controllers/user.controller.js\<close>

text \<open>What a controller does with the request: it answers, or it calls \<^verbatim>\<open>next(err)\<close>.\<close>

datatype handler_result = Respond nat json | Forward ApiError

text \<open>
  \<^verbatim>\<open>userRepository.findAllUsers\<close> is not among the repository's files: the awaited
  result of the call is the parameter.
\<close>

definition getAll :: "json awaited \<Rightarrow> handler_result" where
  "getAll findAllUsers =
     (case findAllUsers of
        Throws m \<Rightarrow> Forward (new_ApiError ''Error getting users'' 500 (JStr m))
      | Returns users \<Rightarrow>
          if \<not> truthy users
          then Forward (new_ApiError ''Users not found'' 404
                         (JObject [(''users'', JStr ''Users not found'')]))
          else Respond 200 users)"

section \<open>routes/user.routes.js and app.js\<close>

text \<open>
  \<^verbatim>\<open>router.get("/", authMiddleware, userController.getAll)\<close>. Express runs the
  handlers of a route in order: after \<^verbatim>\<open>next()\<close> the following handler runs with the
  request as the guard left it; after \<^verbatim>\<open>next(err)\<close> the remaining handlers are skipped
  and the error goes to the error handler. The first component lists the requests the
  protected handler was invoked with.
\<close>

definition run_route ::
  "(request \<Rightarrow> next_call) \<Rightarrow> (request \<Rightarrow> handler_result) \<Rightarrow> request
     \<Rightarrow> request list \<times> handler_result" where
  "run_route guard handler req =
     (case guard req of
        NextError err \<Rightarrow> ([], Forward err)
      | Next req' \<Rightarrow> ([req'], handler req'))"

definition user_route ::
  "jwt_lib \<Rightarrow> env \<Rightarrow> json awaited \<Rightarrow> request \<Rightarrow> request list \<times> handler_result" where
  "user_route J e findAllUsers =
     run_route (\<lambda>r. snd (authMiddleware J e r)) (\<lambda>r. getAll findAllUsers)"

text \<open>
  app.js registers no error-handling middleware, so Express's own handler answers a
  forwarded error: with \<^verbatim>\<open>err.status\<close> when that is a 4xx or 5xx code, with 500 otherwise.
\<close>

definition http_status :: "handler_result \<Rightarrow> nat" where
  "http_status r =
     (case r of
        Respond code body \<Rightarrow> code
      | Forward err \<Rightarrow> if 400 \<le> status err \<and> status err < 600 then status err else 500)"

text \<open>
  The guard's states in the specification's words: a request is Verified when its header
  yields a non-empty token and \<^verbatim>\<open>jwt.verify\<close> calls back with a payload for it;
  every other request (no token, empty token, bad signature, expiry, a throw) is Rejected.
\<close>

definition verified :: "jwt_lib \<Rightarrow> env \<Rightarrow> request \<Rightarrow> bool" where
  "verified J e req =
     (case header_token (authorization req) of
        None \<Rightarrow> False
      | Some t \<Rightarrow>
          t \<noteq> [] \<and>
          (case verify J t (or_default (JWT_SECRET e) ''secret'') of
             VerifyOk u \<Rightarrow> True
           | VerifyThrows m \<Rightarrow> False
           | VerifyError m \<Rightarrow> False))"

section \<open>repositories/user.repository.js\<close>

text \<open>
  The users table of the migration: \<^verbatim>\<open>id\<close> (increments, primary key), \<^verbatim>\<open>name\<close>,
  \<^verbatim>\<open>email\<close> (unique) and \<^verbatim>\<open>password\<close>, each a string column (255 characters in
  knex) that is not nullable. \<open>reachable\<close> is whether a query reaches the database; when
  it does not, the awaited query rejects.
\<close>

record user_row =
  user_id :: nat
  user_name :: string
  user_email :: string
  user_password :: string

record db =
  users :: "user_row list"
  next_id :: nat
  reachable :: bool

text \<open>\<^verbatim>\<open>db("users").where("email", email).first()\<close>: the first row whose email equals the
  argument, or undefined.\<close>

definition findUserByEmail :: "db \<Rightarrow> string \<Rightarrow> user_row option awaited" where
  "findUserByEmail d em =
     (if reachable d then Returns (find (\<lambda>u. user_email u = em) (users d))
      else Throws ''connect ECONNREFUSED'')"

text \<open>\<^verbatim>\<open>db("users").insert(user).returning("*")\<close>: the inserted rows, with every column.\<close>

definition insertUser :: "db \<Rightarrow> string \<Rightarrow> string \<Rightarrow> string \<Rightarrow> user_row list awaited \<times> db" where
  "insertUser d nm em pw =
     (if \<not> reachable d then (Throws ''connect ECONNREFUSED'', d)
      else if 255 < length nm \<or> 255 < length em \<or> 255 < length pw
        then (Throws ''value too long for type character varying(255)'', d)
      else if em \<in> set (map user_email (users d))
        then (Throws ''duplicate key value violates unique constraint'', d)
      else
        (let row = \<lparr>user_id = next_id d, user_name = nm, user_email = em, user_password = pw\<rparr>
         in (Returns [row], d\<lparr>users := users d @ [row], next_id := Suc (next_id d)\<rparr>)))"

section \<open>controllers/auth.controller.js\<close>

text \<open>
  The bcrypt package is not part of the repository: it is a parameter of the model.
  Each call is awaited inside \<^verbatim>\<open>try\<close>, so each may throw.
\<close>

record bcrypt_lib =
  genSalt :: "int \<Rightarrow> string awaited"
  hash :: "string \<Rightarrow> string \<Rightarrow> string awaited"
  compare :: "string \<Rightarrow> string \<Rightarrow> bool awaited"

text \<open>\<^verbatim>\<open>req.body\<close> after the route's schema validation; \<open>login\<close> reads email and password only.\<close>

record body =
  name :: string
  email :: string
  password :: string

text \<open>\<^verbatim>\<open>const SECRET = process.env.JWT_SECRET || "secret"\<close>\<close>

definition SECRET :: "env \<Rightarrow> string" where
  "SECRET e = or_default (JWT_SECRET e) ''secret''"

text \<open>\<^verbatim>\<open>parseInt(process.env.SALT_ROUNDS) || 10\<close>: NaN and 0 are falsy.\<close>

definition salt_rounds :: "env \<Rightarrow> int" where
  "salt_rounds e = (case SALT_ROUNDS e of None \<Rightarrow> 10 | Some n \<Rightarrow> if n = 0 then 10 else n)"

text \<open>A row as the JSON object the response carries.\<close>

definition user_json :: "user_row \<Rightarrow> json" where
  "user_json u =
     JObject [(''id'', JNum (int (user_id u))), (''name'', JStr (user_name u)),
              (''email'', JStr (user_email u)), (''password'', JStr (user_password u))]"

definition user_not_found :: ApiError where
  "user_not_found = new_ApiError ''User not found'' 404 (JObject [(''email'', JStr ''User not found'')])"

definition invalid_password :: ApiError where
  "invalid_password =
     new_ApiError ''Invalid password'' 401 (JObject [(''password'', JStr ''Invalid password'')])"

definition login :: "bcrypt_lib \<Rightarrow> jwt_lib \<Rightarrow> env \<Rightarrow> db \<Rightarrow> body \<Rightarrow> handler_result" where
  "login B J e d b =
     (case findUserByEmail d (email b) of
        Throws m \<Rightarrow> Forward (new_ApiError ''Error logging in'' 400 (JStr m))
      | Returns None \<Rightarrow> Forward user_not_found
      | Returns (Some u) \<Rightarrow>
          (case compare B (password b) (user_password u) of
             Throws m \<Rightarrow> Forward (new_ApiError ''Error logging in'' 400 (JStr m))
           | Returns isPasswordValid \<Rightarrow>
               if \<not> isPasswordValid then Forward invalid_password
               else
                 (case sign J (JObject [(''id'', JNum (int (user_id u)))]) (SECRET e) ''1h'' of
                    Throws m \<Rightarrow> Forward (new_ApiError ''Error logging in'' 400 (JStr m))
                  | Returns token \<Rightarrow>
                      Respond 200 (JObject [(''message'', JStr ''User logged in successfully''),
                                            (''token'', JStr token)]))))"

definition user_already_exists :: ApiError where
  "user_already_exists =
     new_ApiError ''User already exists'' 400 (JObject [(''email'', JStr ''User already exists'')])"

definition signUp :: "bcrypt_lib \<Rightarrow> env \<Rightarrow> db \<Rightarrow> body \<Rightarrow> handler_result \<times> db" where
  "signUp B e d b =
     (case findUserByEmail d (email b) of
        Throws m \<Rightarrow> (Forward (new_ApiError ''Error creating user'' 400 (JStr m)), d)
      | Returns (Some u) \<Rightarrow> (Forward user_already_exists, d)
      | Returns None \<Rightarrow>
          (case genSalt B (salt_rounds e) of
             Throws m \<Rightarrow> (Forward (new_ApiError ''Error creating user'' 400 (JStr m)), d)
           | Returns salt \<Rightarrow>
               (case hash B (password b) salt of
                  Throws m \<Rightarrow> (Forward (new_ApiError ''Error creating user'' 400 (JStr m)), d)
                | Returns hashedPassword \<Rightarrow>
                    (case insertUser d (name b) (email b) hashedPassword of
                       (Throws m, d') \<Rightarrow>
                         (Forward (new_ApiError ''Error creating user'' 400 (JStr m)), d')
                     | (Returns newUser, d') \<Rightarrow>
                         (Respond 201 (JObject [(''message'', JStr ''User created successfully''),
                                                (''user'', JArray (map user_json newUser))]),
                          d')))))"

section \<open>Test doubles for evaluation\<close>

text \<open>
  A stand-in for jsonwebtoken, used only to evaluate the handlers on concrete requests:
  a token is the key followed by a dot and the lifetime; signing with an empty key
  throws, as the package does.
\<close>

definition stub_jwt :: jwt_lib where
  "stub_jwt =
     \<lparr>sign = (\<lambda>payload key expiresIn.
               if key = [] then Throws ''secretOrPrivateKey must have a value''
               else Returns (key @ ''.'' @ expiresIn)),
      verify = (\<lambda>token key.
               if token = key @ ''.1h'' then VerifyOk (JObject [(''id'', JNum 1)])
               else VerifyError ''invalid signature'')\<rparr>"

text \<open>
  A stand-in for bcrypt: the digest is a marker, the salt and the reversed plaintext.
\<close>

definition stub_bcrypt :: bcrypt_lib where
  "stub_bcrypt =
     \<lparr>genSalt = (\<lambda>rounds. Returns ''salt''),
      hash = (\<lambda>s salt. Returns (''$2b$'' @ salt @ ''$'' @ rev s)),
      compare = (\<lambda>s digest. Returns (digest = ''$2b$salt$'' @ rev s))\<rparr>"

text \<open>An environment with nothing set, and a table holding one account.\<close>

definition env_unset :: env where
  "env_unset = \<lparr>JWT_SECRET = None, SALT_ROUNDS = None\<rparr>"

definition alice :: user_row where
  "alice = \<lparr>user_id = 1, user_name = ''alice'', user_email = ''alice@x.com'',
            user_password = ''$2b$salt$!321terceS''\<rparr>"

definition db_alice :: db where
  "db_alice = \<lparr>users = [alice], next_id = 2, reachable = True\<rparr>"

definition db_empty :: db where
  "db_empty = \<lparr>users = [], next_id = 1, reachable = True\<rparr>"

section \<open>Login-key normalisation, in the specification's words\<close>

text \<open>
  The specification speaks of a login key that is lowercased and trimmed. The source has
  no such function; this one follows the specification's words and is used only to say
  which keys the specification regards as the same.
\<close>

definition lower_char :: "char \<Rightarrow> char" where
  "lower_char c =
     (case map_of (zip ''ABCDEFGHIJKLMNOPQRSTUVWXYZ'' ''abcdefghijklmnopqrstuvwxyz'') c of
        None \<Rightarrow> c
      | Some l \<Rightarrow> l)"

definition is_space :: "char \<Rightarrow> bool" where
  "is_space c = (c = CHR '' '' \<or> c = CHR 0x09 \<or> c = CHR 0x0A \<or> c = CHR 0x0D)"

definition trim :: "string \<Rightarrow> string" where
  "trim s = rev (dropWhile is_space (rev (dropWhile is_space s)))"

definition normalize_key :: "string \<Rightarrow> string" where
  "normalize_key s = map lower_char (trim s)"

section \<open>The Password Hasher\<close>

text \<open>
  Modelled from the spec: what \<^verbatim>\<open>bcrypt.genSalt\<close>, \<^verbatim>\<open>bcrypt.hash\<close> and
  \<^verbatim>\<open>bcrypt.compare\<close> return. The bcrypt package is not under src/; section 4.1 of
  the specification describes it as the Password Hasher. A digest is self-describing: it
  encodes the algorithm identifier, the salt, the cost factor and the derived output.
  Hashing fails with \<open>HashingError\<close> if the plaintext exceeds the input-length ceiling or
  the cost factor is out of the supported range. Verifying recomputes with the salt and
  the cost embedded in the digest and compares; it returns false for a well-formed
  mismatch and fails with \<open>HashingError\<close> only if the digest is structurally malformed.
  The specification does not give the derivation, the ceiling, the range or the
  identifier: they are the parameters \<open>derive\<close>, \<open>ceiling_len\<close>, \<open>min_cost\<close>,
  \<open>max_cost\<close> and \<open>algorithm_id\<close>. The fresh salt of a call is an argument.
  The controllers above take the package as the parameter \<open>bcrypt_lib\<close>, so that what
  is proved of them holds whatever the package does; this model is only for the property
  of hashing and verifying themselves.
\<close>

datatype hashing_error = HashingError

record digest =
  digest_algorithm :: string
  digest_cost :: nat
  digest_salt :: string
  digest_output :: string

record hasher =
  derive :: "nat \<Rightarrow> string \<Rightarrow> string \<Rightarrow> string"
  ceiling_len :: nat
  min_cost :: nat
  max_cost :: nat
  algorithm_id :: string

definition hasher_hash :: "hasher \<Rightarrow> string \<Rightarrow> nat \<Rightarrow> string \<Rightarrow> hashing_error + digest" where
  "hasher_hash P plaintext costFactor fresh_salt =
     (if ceiling_len P < length plaintext \<or> costFactor < min_cost P \<or> max_cost P < costFactor
      then Inl HashingError
      else Inr \<lparr>digest_algorithm = algorithm_id P, digest_cost = costFactor, digest_salt = fresh_salt,
                digest_output = derive P costFactor fresh_salt plaintext\<rparr>)"

definition well_formed :: "hasher \<Rightarrow> digest \<Rightarrow> bool" where
  "well_formed P d =
     (digest_algorithm d = algorithm_id P \<and> min_cost P \<le> digest_cost d \<and> digest_cost d \<le> max_cost P)"

definition hasher_verify :: "hasher \<Rightarrow> string \<Rightarrow> digest \<Rightarrow> hashing_error + bool" where
  "hasher_verify P plaintext d =
     (if well_formed P d then Inr (derive P (digest_cost d) (digest_salt d) plaintext = digest_output d)
      else Inl HashingError)"

text \<open>
  The guide's service (\<^verbatim>\<open>src/services/auth.service.js\<close>): \<open>hashSenha\<close> generates a
  salt for \<open>saltRounds\<close> and hashes with it; \<open>compararSenha\<close> compares the password
  with the stored digest.
\<close>

definition hashSenha :: "hasher \<Rightarrow> nat \<Rightarrow> string \<Rightarrow> string \<Rightarrow> hashing_error + digest" where
  "hashSenha P saltRounds fresh_salt senha = hasher_hash P senha saltRounds fresh_salt"

definition compararSenha :: "hasher \<Rightarrow> string \<Rightarrow> digest \<Rightarrow> hashing_error + bool" where
  "compararSenha P senha h = hasher_verify P senha h"

text \<open>A stand-in hasher for evaluation: costs 4 to 31, plaintexts of at most 72 characters.\<close>

definition stub_hasher :: hasher where
  "stub_hasher =
     \<lparr>derive = (\<lambda>c s p. rev p @ s), ceiling_len = 72, min_cost = 4, max_cost = 31,
      algorithm_id = ''2b''\<rparr>"

section \<open>Splitting the header, looking up a key\<close>

lemma split_on_prefix:
  "c \<notin> set a \<Longrightarrow> split_on c (a @ c # r) = a # split_on c r"
  by (induction a) (auto split: list.splits)

lemma split_on_no_separator:
  "c \<notin> set t \<Longrightarrow> split_on c t = [t]"
  by (induction t) (auto split: list.splits)

text \<open>
  The token is the second space-separated segment of the header, whatever the first
  segment is and whether or not more segments follow.
\<close>

lemma header_token_second_segment:
  assumes "CHR '' '' \<notin> set a" and "CHR '' '' \<notin> set t"
  shows "header_token (Some (a @ '' '' @ t)) = Some t"
    and "header_token (Some (a @ '' '' @ t @ '' '' @ r)) = Some t"
proof -
  show "header_token (Some (a @ '' '' @ t)) = Some t"
    using assms by (simp add: header_token_def split_on_prefix split_on_no_separator)
  have "split_on (CHR '' '') (t @ CHR '' '' # r) = t # split_on (CHR '' '') r"
    using assms(2) by (rule split_on_prefix)
  then show "header_token (Some (a @ '' '' @ t @ '' '' @ r)) = Some t"
    using assms(1) by (simp add: header_token_def split_on_prefix)
qed

lemma find_email_Some:
  "find (\<lambda>u. user_email u = k) us = Some u \<Longrightarrow> k \<in> set (map user_email us)"
  by (auto simp: find_Some_iff)

lemma findUserByEmail_Some:
  "findUserByEmail d k = Returns (Some u) \<Longrightarrow> user_email u = k \<and> u \<in> set (users d)"
  by (auto simp: findUserByEmail_def find_Some_iff split: if_splits)

lemma findUserByEmail_None:
  "reachable d \<Longrightarrow>
     (findUserByEmail d k = Returns None) = (k \<notin> set (map user_email (users d)))"
  by (auto simp: findUserByEmail_def find_None_iff)

section \<open>The access guard\<close>

lemma authMiddleware_cases:
  "authMiddleware J e req =
     (case header_token (authorization req) of
        None \<Rightarrow> ([], NextError token_not_found)
      | Some t \<Rightarrow>
          if t = [] then ([], NextError token_not_found)
          else (case verify J t (or_default (JWT_SECRET e) ''secret'') of
                  VerifyOk u \<Rightarrow>
                    ([(t, or_default (JWT_SECRET e) ''secret'')], Next (req\<lparr>user := Some u\<rparr>))
                | VerifyThrows m \<Rightarrow>
                    ([(t, or_default (JWT_SECRET e) ''secret'')],
                     NextError (new_ApiError ''Error authenticating user'' 401 (JStr m)))
                | VerifyError m \<Rightarrow>
                    ([(t, or_default (JWT_SECRET e) ''secret'')],
                     NextError (new_ApiError ''Error authenticating user'' 401 (JStr m)))))"
  by (simp add: authMiddleware_def Let_def split: option.splits verify_result.splits)

lemma rejected_status:
  "snd (authMiddleware J e req) = NextError err \<Longrightarrow> status err = 401"
  by (auto simp: authMiddleware_cases token_not_found_def new_ApiError_def
           split: option.splits if_splits verify_result.splits)

text \<open>The guard calls \<^verbatim>\<open>next\<close> with an error exactly for the requests that are not Verified.\<close>

lemma guard_rejects_iff:
  "(\<exists>err. snd (authMiddleware J e req) = NextError err) = (\<not> verified J e req)"
  by (simp add: verified_def authMiddleware_cases split: option.splits verify_result.splits)

lemma verified_request_reaches_handler:
  assumes "verified J e req"
  shows "\<exists>u. fst (user_route J e findAllUsers req) = [req\<lparr>user := Some u\<rparr>]
             \<and> snd (user_route J e findAllUsers req) = getAll findAllUsers"
  using assms
  by (auto simp: verified_def user_route_def run_route_def authMiddleware_cases
           split: option.splits verify_result.splits)

text \<open>
  C6: whenever a request is Rejected (no token, a malformed or empty one, a bad signature,
  an expired token), the guard forwards an error of status 401, the route ends with that
  error, which is answered with status 401, and the protected handler is not invoked;
  this holds for any handler placed behind the guard, and so for the user listing.
\<close>

theorem rejected_request_never_reaches_handler:
  assumes "\<not> verified J e req"
  shows "(\<exists>err. snd (authMiddleware J e req) = NextError err \<and> status err = 401)
         \<and> fst (run_route (\<lambda>r. snd (authMiddleware J e r)) handler req) = []
         \<and> http_status (snd (run_route (\<lambda>r. snd (authMiddleware J e r)) handler req)) = 401
         \<and> fst (user_route J e findAllUsers req) = []
         \<and> http_status (snd (user_route J e findAllUsers req)) = 401"
proof -
  from assms obtain err where err: "snd (authMiddleware J e req) = NextError err"
    using guard_rejects_iff [of J e req] by blast
  have st: "status err = 401"
    using err by (rule rejected_status)
  have run: "run_route (\<lambda>r. snd (authMiddleware J e r)) h req = ([], Forward err)" for h
    by (simp add: run_route_def err)
  show ?thesis
    by (simp add: user_route_def run http_status_def st err)
qed

theorem rejected_request_never_reaches_handler_witness:
  "\<not> verified stub_jwt env_unset \<lparr>authorization = Some ''Bearer forged'', user = None\<rparr>
   \<and> fst (user_route stub_jwt env_unset (Returns (JArray []))
            \<lparr>authorization = Some ''Bearer forged'', user = None\<rparr>) = []
   \<and> http_status (snd (user_route stub_jwt env_unset (Returns (JArray []))
            \<lparr>authorization = Some ''Bearer forged'', user = None\<rparr>)) = 401"
proof -
  have r: "\<not> verified stub_jwt env_unset \<lparr>authorization = Some ''Bearer forged'', user = None\<rparr>"
    by (simp add: verified_def header_token_def or_default_def env_unset_def stub_jwt_def)
  show ?thesis
    using r rejected_request_never_reaches_handler
              [OF r, of "\<lambda>r. getAll (Returns (JArray []))" "Returns (JArray [])"]
    by simp
qed

text \<open>
  C10: whatever the request and whatever \<^verbatim>\<open>jwt.verify\<close> does (payload, error, throw),
  the guard either forwards the request with the decoded payload attached as
  \<^verbatim>\<open>req.user\<close> and no error, or forwards an ApiError whose status is 401.
\<close>

theorem authMiddleware_attaches_claims_or_401:
  "(case snd (authMiddleware J e req) of
      Next r \<Rightarrow>
        (\<exists>t u. header_token (authorization req) = Some t
               \<and> verify J t (or_default (JWT_SECRET e) ''secret'') = VerifyOk u
               \<and> r = req\<lparr>user := Some u\<rparr>)
    | NextError err \<Rightarrow> status err = 401)"
  by (simp add: authMiddleware_cases token_not_found_def new_ApiError_def
           split: option.splits verify_result.splits)

section \<open>The user listing\<close>

text \<open>
  C9: when the repository returns an array the handler answers 200 with that array and
  never takes the 404 branch; an empty table gives 200 with the empty list; null and
  undefined are the results that give the 404 error.
\<close>

theorem getAll_array_is_200:
  "getAll (Returns (JArray rows)) = Respond 200 (JArray rows)
   \<and> getAll (Returns (JArray [])) = Respond 200 (JArray [])
   \<and> getAll (Returns JNull) =
       Forward (new_ApiError ''Users not found'' 404 (JObject [(''users'', JStr ''Users not found'')]))
   \<and> getAll (Returns JUndefined) =
       Forward (new_ApiError ''Users not found'' 404 (JObject [(''users'', JStr ''Users not found'')]))"
  by (simp add: getAll_def)

text \<open>The 404 branch is taken exactly for a falsy result; no array is falsy.\<close>

lemma getAll_404_iff_falsy:
  "(getAll (Returns v) =
      Forward (new_ApiError ''Users not found'' 404 (JObject [(''users'', JStr ''Users not found'')])))
     = (\<not> truthy v)"
  by (simp add: getAll_def)

section \<open>Which header shapes reach signature verification\<close>

lemma guard_without_token:
  "authMiddleware J e \<lparr>authorization = None, user = None\<rparr> = ([], NextError token_not_found)"
  "authMiddleware J e \<lparr>authorization = Some [], user = None\<rparr> = ([], NextError token_not_found)"
  "authMiddleware J e \<lparr>authorization = Some ''Bearer'', user = None\<rparr> = ([], NextError token_not_found)"
  "authMiddleware J e \<lparr>authorization = Some ''Bearer '', user = None\<rparr> = ([], NextError token_not_found)"
  by (simp_all add: authMiddleware_cases header_token_def)

text \<open>
  C4: a header with another scheme (\<^verbatim>\<open>Basic abc\<close>) and a header with a third segment
  (\<^verbatim>\<open>Bearer abc def\<close>) are not rejected before verification: in both the guard calls
  \<^verbatim>\<open>jwt.verify\<close> on the second segment, and a token the verifier accepts is let
  through under the scheme \<^verbatim>\<open>Basic\<close>.
\<close>

theorem authMiddleware_verifies_any_scheme:
  "fst (authMiddleware J e \<lparr>authorization = Some ''Basic abc'', user = None\<rparr>)
     = [(''abc'', or_default (JWT_SECRET e) ''secret'')]
   \<and> fst (authMiddleware J e \<lparr>authorization = Some ''Bearer abc def'', user = None\<rparr>)
     = [(''abc'', or_default (JWT_SECRET e) ''secret'')]
   \<and> authMiddleware stub_jwt env_unset \<lparr>authorization = Some ''Basic secret.1h'', user = None\<rparr>
     = ([(''secret.1h'', ''secret'')],
        Next \<lparr>authorization = Some ''Basic secret.1h'', user = Some (JObject [(''id'', JNum 1)])\<rparr>)"
  by (simp add: authMiddleware_cases header_token_def or_default_def env_unset_def stub_jwt_def
           split: verify_result.splits)

section \<open>The secret key\<close>

text \<open>
  C3, as stated, fails: with no secret configured (and with an empty one) the login flow
  issues a token, signed with the key \<^verbatim>\<open>secret\<close>, and the guard verifies against that
  same key.
\<close>

theorem missing_secret_is_replaced_by_default:
  "login stub_bcrypt stub_jwt \<lparr>JWT_SECRET = None, SALT_ROUNDS = None\<rparr> db_alice
      \<lparr>name = [], email = ''alice@x.com'', password = ''Secret123!''\<rparr>
     = Respond 200 (JObject [(''message'', JStr ''User logged in successfully''),
                             (''token'', JStr ''secret.1h'')])
   \<and> login stub_bcrypt stub_jwt \<lparr>JWT_SECRET = Some [], SALT_ROUNDS = None\<rparr> db_alice
      \<lparr>name = [], email = ''alice@x.com'', password = ''Secret123!''\<rparr>
     = Respond 200 (JObject [(''message'', JStr ''User logged in successfully''),
                             (''token'', JStr ''secret.1h'')])
   \<and> fst (authMiddleware stub_jwt \<lparr>JWT_SECRET = None, SALT_ROUNDS = None\<rparr>
            \<lparr>authorization = Some ''Bearer secret.1h'', user = None\<rparr>)
     = [(''secret.1h'', ''secret'')]"
  by (simp add: login_def findUserByEmail_def db_alice_def alice_def stub_bcrypt_def stub_jwt_def
        SECRET_def or_default_def authMiddleware_cases header_token_def)

text \<open>
  C3, amended: an unset or empty \<^verbatim>\<open>JWT_SECRET\<close> is replaced by the key \<^verbatim>\<open>secret\<close> and
  a non-empty one is used as it is, so the key is never empty; the login flow and the
  guard behave with an unset or empty secret exactly as they do with the secret
  configured to that key; every call the guard makes to \<^verbatim>\<open>jwt.verify\<close> uses that key,
  and a login that has found the record and matched the password hands that key to
  \<^verbatim>\<open>jwt.sign\<close>, its answer being what signing with it gives.
\<close>

theorem secret_defaults_to_literal:
  "SECRET (e\<lparr>JWT_SECRET := None\<rparr>) = ''secret''
   \<and> SECRET (e\<lparr>JWT_SECRET := Some []\<rparr>) = ''secret''
   \<and> SECRET (e\<lparr>JWT_SECRET := Some (c # s)\<rparr>) = c # s
   \<and> SECRET e \<noteq> []
   \<and> login B J e d b = login B J (e\<lparr>JWT_SECRET := Some (SECRET e)\<rparr>) d b
   \<and> authMiddleware J e req = authMiddleware J (e\<lparr>JWT_SECRET := Some (SECRET e)\<rparr>) req
   \<and> (fst (authMiddleware J e req) = [] \<or> (\<exists>t. fst (authMiddleware J e req) = [(t, SECRET e)]))
   \<and> (findUserByEmail d (email b) = Returns (Some u)
        \<and> compare B (password b) (user_password u) = Returns True
      \<longrightarrow> login B J e d b =
            (case sign J (JObject [(''id'', JNum (int (user_id u)))]) (SECRET e) ''1h'' of
               Throws m \<Rightarrow> Forward (new_ApiError ''Error logging in'' 400 (JStr m))
             | Returns token \<Rightarrow>
                 Respond 200 (JObject [(''message'', JStr ''User logged in successfully''),
                                       (''token'', JStr token)])))"
proof -
  have key: "SECRET (e\<lparr>JWT_SECRET := Some (SECRET e)\<rparr>) = SECRET e"
    by (simp add: SECRET_def or_default_def split: option.splits)
  have guard_key:
    "or_default (JWT_SECRET (e\<lparr>JWT_SECRET := Some (SECRET e)\<rparr>)) ''secret''
       = or_default (JWT_SECRET e) ''secret''"
    using key by (simp add: SECRET_def)
  have "login B J e d b = login B J (e\<lparr>JWT_SECRET := Some (SECRET e)\<rparr>) d b"
    unfolding login_def key by (rule refl)
  moreover have "authMiddleware J e req = authMiddleware J (e\<lparr>JWT_SECRET := Some (SECRET e)\<rparr>) req"
    unfolding authMiddleware_def guard_key by (rule refl)
  moreover have "fst (authMiddleware J e req) = []
                 \<or> (\<exists>t. fst (authMiddleware J e req) = [(t, SECRET e)])"
    by (simp add: authMiddleware_cases SECRET_def split: option.splits verify_result.splits)
  moreover have "SECRET e \<noteq> []"
    by (simp add: SECRET_def or_default_def split: option.splits)
  moreover have "findUserByEmail d (email b) = Returns (Some u)
        \<and> compare B (password b) (user_password u) = Returns True
      \<longrightarrow> login B J e d b =
            (case sign J (JObject [(''id'', JNum (int (user_id u)))]) (SECRET e) ''1h'' of
               Throws m \<Rightarrow> Forward (new_ApiError ''Error logging in'' 400 (JStr m))
             | Returns token \<Rightarrow>
                 Respond 200 (JObject [(''message'', JStr ''User logged in successfully''),
                                       (''token'', JStr token)]))"
    by (simp add: login_def)
  ultimately show ?thesis
    by (simp add: SECRET_def or_default_def)
qed

theorem secret_defaults_to_literal_witness:
  "findUserByEmail db_alice ''alice@x.com'' = Returns (Some alice)
   \<and> compare stub_bcrypt ''Secret123!'' (user_password alice) = Returns True
   \<and> login stub_bcrypt stub_jwt \<lparr>JWT_SECRET = Some ''k3y'', SALT_ROUNDS = None\<rparr> db_alice
        \<lparr>name = [], email = ''alice@x.com'', password = ''Secret123!''\<rparr>
     = Respond 200 (JObject [(''message'', JStr ''User logged in successfully''),
                             (''token'', JStr ''k3y.1h'')])
   \<and> login stub_bcrypt stub_jwt \<lparr>JWT_SECRET = None, SALT_ROUNDS = None\<rparr> db_alice
        \<lparr>name = [], email = ''alice@x.com'', password = ''Secret123!''\<rparr>
     = Respond 200 (JObject [(''message'', JStr ''User logged in successfully''),
                             (''token'', JStr ''secret.1h'')])"
proof -
  have f: "findUserByEmail db_alice
             (email \<lparr>name = [], email = ''alice@x.com'', password = ''Secret123!''\<rparr>)
           = Returns (Some alice)"
    by (simp add: findUserByEmail_def db_alice_def alice_def)
  have c: "compare stub_bcrypt
             (password \<lparr>name = [], email = ''alice@x.com'', password = ''Secret123!''\<rparr>)
             (user_password alice) = Returns True"
    by (simp add: stub_bcrypt_def alice_def)
  have step:
    "login stub_bcrypt stub_jwt E db_alice
        \<lparr>name = [], email = ''alice@x.com'', password = ''Secret123!''\<rparr>
       = (case sign stub_jwt (JObject [(''id'', JNum (int (user_id alice)))]) (SECRET E) ''1h'' of
            Throws m \<Rightarrow> Forward (new_ApiError ''Error logging in'' 400 (JStr m))
          | Returns token \<Rightarrow>
              Respond 200 (JObject [(''message'', JStr ''User logged in successfully''),
                                    (''token'', JStr token)]))" for E
    using f c
      secret_defaults_to_literal [where e = E and B = stub_bcrypt and J = stub_jwt
        and d = db_alice and u = alice
        and b = "\<lparr>name = [], email = ''alice@x.com'', password = ''Secret123!''\<rparr>"]
    by blast
  have k: "SECRET \<lparr>JWT_SECRET = Some ''k3y'', SALT_ROUNDS = None\<rparr> = ''k3y''"
    and n: "SECRET \<lparr>JWT_SECRET = None, SALT_ROUNDS = None\<rparr> = ''secret''"
    by (simp_all add: SECRET_def or_default_def)
  have sg: "sign stub_jwt p ''k3y'' ''1h'' = Returns ''k3y.1h''"
    and sn: "sign stub_jwt p ''secret'' ''1h'' = Returns ''secret.1h''" for p
    by (simp_all add: stub_jwt_def)
  from f have f': "findUserByEmail db_alice ''alice@x.com'' = Returns (Some alice)"
    by simp
  from c have c': "compare stub_bcrypt ''Secret123!'' (user_password alice) = Returns True"
    by simp
  show ?thesis
    using f' c'
      step [of "\<lparr>JWT_SECRET = Some ''k3y'', SALT_ROUNDS = None\<rparr>"]
      step [of "\<lparr>JWT_SECRET = None, SALT_ROUNDS = None\<rparr>"]
    by (simp add: k n sg sn)
qed

section \<open>Login\<close>

lemma login_unknown_key:
  "reachable d \<Longrightarrow> email b \<notin> set (map user_email (users d)) \<Longrightarrow>
     login B J e d b = Forward user_not_found"
  by (simp add: login_def findUserByEmail_None [THEN iffD2])

lemma login_bad_password:
  "findUserByEmail d (email b) = Returns (Some u) \<Longrightarrow>
   compare B (password b) (user_password u) = Returns False \<Longrightarrow>
     login B J e d b = Forward invalid_password"
  by (simp add: login_def)

text \<open>
  C1: on a table holding alice only, a login for an unknown key is answered with
  \<^verbatim>\<open>User not found\<close> and status 404, a login for alice with a wrong password with
  \<^verbatim>\<open>Invalid password\<close> and status 401: the two failures differ in status and in body.
\<close>

theorem login_tells_unknown_account_from_bad_password:
  "login stub_bcrypt stub_jwt env_unset db_alice
      \<lparr>name = [], email = ''bob@x.com'', password = ''Secret123!''\<rparr>
     = Forward \<lparr>message = ''User not found'', status = 404,
                errors = JObject [(''email'', JStr ''User not found'')]\<rparr>
   \<and> login stub_bcrypt stub_jwt env_unset db_alice
      \<lparr>name = [], email = ''alice@x.com'', password = ''wrong''\<rparr>
     = Forward \<lparr>message = ''Invalid password'', status = 401,
                errors = JObject [(''password'', JStr ''Invalid password'')]\<rparr>
   \<and> http_status (Forward user_not_found) = 404
   \<and> http_status (Forward invalid_password) = 401"
  by (simp add: login_def findUserByEmail_def db_alice_def alice_def stub_bcrypt_def
        user_not_found_def invalid_password_def new_ApiError_def http_status_def)

section \<open>Registration\<close>

lemma signUp_created:
  assumes "findUserByEmail d (email b) = Returns None"
    and "genSalt B (salt_rounds e) = Returns salt"
    and "hash B (password b) salt = Returns h"
    and "length (name b) \<le> 255" and "length (email b) \<le> 255" and "length h \<le> 255"
  shows "signUp B e d b =
           (Respond 201
              (JObject [(''message'', JStr ''User created successfully''),
                        (''user'', JArray [JObject [(''id'', JNum (int (next_id d))),
                                                    (''name'', JStr (name b)),
                                                    (''email'', JStr (email b)),
                                                    (''password'', JStr h)]])]),
            d\<lparr>users := users d @ [\<lparr>user_id = next_id d, user_name = name b,
                                    user_email = email b, user_password = h\<rparr>],
              next_id := Suc (next_id d)\<rparr>)"
proof -
  have r: "reachable d"
    using assms(1) by (auto simp: findUserByEmail_def split: if_splits)
  have fresh: "email b \<notin> set (map user_email (users d))"
    using assms(1) r by (simp add: findUserByEmail_None)
  show ?thesis
    using assms r fresh by (simp add: signUp_def insertUser_def user_json_def Let_def)
qed

text \<open>
  C2: registering alice on an empty table is answered 201 with a body whose
  \<^verbatim>\<open>user\<close> entry is the inserted row with every column, the password column included:
  the body carries the digest that \<^verbatim>\<open>bcrypt.hash\<close> returned.
\<close>

theorem signUp_response_carries_digest:
  "hash stub_bcrypt ''Secret123!'' ''salt'' = Returns ''$2b$salt$!321terceS''
   \<and> fst (signUp stub_bcrypt env_unset db_empty
            \<lparr>name = ''alice'', email = ''alice@x.com'', password = ''Secret123!''\<rparr>)
     = Respond 201
         (JObject [(''message'', JStr ''User created successfully''),
                   (''user'', JArray [JObject [(''id'', JNum 1),
                                               (''name'', JStr ''alice''),
                                               (''email'', JStr ''alice@x.com''),
                                               (''password'', JStr ''$2b$salt$!321terceS'')]])])"
  by (simp add: signUp_def findUserByEmail_def insertUser_def user_json_def db_empty_def
        env_unset_def salt_rounds_def stub_bcrypt_def Let_def)

text \<open>
  C5, as stated, fails: a registration whose key equals a stored email only after
  normalisation (\<^verbatim>\<open>ALICE@x.com\<close> against \<^verbatim>\<open>alice@x.com\<close>) succeeds with 201, and a
  registration whose key equals a stored email exactly is refused with an error whose
  status is 400, which is answered as 400.
\<close>

theorem signUp_duplicate_is_not_409:
  "normalize_key ''ALICE@x.com'' = user_email alice
   \<and> fst (signUp stub_bcrypt env_unset db_alice
            \<lparr>name = ''alice'', email = ''ALICE@x.com'', password = ''Secret123!''\<rparr>)
     = Respond 201
         (JObject [(''message'', JStr ''User created successfully''),
                   (''user'', JArray [JObject [(''id'', JNum 2),
                                               (''name'', JStr ''alice''),
                                               (''email'', JStr ''ALICE@x.com''),
                                               (''password'', JStr ''$2b$salt$!321terceS'')]])])
   \<and> signUp stub_bcrypt env_unset db_alice
        \<lparr>name = ''alice'', email = ''alice@x.com'', password = ''Secret123!''\<rparr>
     = (Forward \<lparr>message = ''User already exists'', status = 400,
                 errors = JObject [(''email'', JStr ''User already exists'')]\<rparr>, db_alice)
   \<and> http_status (Forward user_already_exists) = 400"
  by (simp add: normalize_key_def trim_def is_space_def lower_char_def
        signUp_def findUserByEmail_def insertUser_def user_json_def db_alice_def alice_def
        env_unset_def salt_rounds_def stub_bcrypt_def Let_def
        user_already_exists_def new_ApiError_def http_status_def)

text \<open>
  C5, amended: a registration whose login key, exactly as received, equals the email of
  a stored record fails with the error \<^verbatim>\<open>User already exists\<close>, and stores nothing.
\<close>

theorem signUp_existing_key_fails:
  assumes "reachable d" and "email b \<in> set (map user_email (users d))"
  shows "\<exists>err. signUp B e d b = (Forward err, d)
               \<and> message err = ''User already exists''
               \<and> errors err = JObject [(''email'', JStr ''User already exists'')]"
proof -
  from assms have "findUserByEmail d (email b) \<noteq> Returns None"
    by (simp add: findUserByEmail_None)
  with assms(1) obtain u where "findUserByEmail d (email b) = Returns (Some u)"
    by (cases "find (\<lambda>u. user_email u = email b) (users d)") (auto simp: findUserByEmail_def)
  then have "signUp B e d b = (Forward user_already_exists, d)"
    by (simp add: signUp_def)
  then show ?thesis
    by (simp add: user_already_exists_def new_ApiError_def)
qed

theorem signUp_existing_key_fails_witness:
  "reachable db_alice
   \<and> ''alice@x.com'' \<in> set (map user_email (users db_alice))
   \<and> (\<exists>err. signUp stub_bcrypt env_unset db_alice
               \<lparr>name = ''alice'', email = ''alice@x.com'', password = ''Secret123!''\<rparr>
               = (Forward err, db_alice)
             \<and> message err = ''User already exists''
             \<and> errors err = JObject [(''email'', JStr ''User already exists'')])"
proof -
  have r: "reachable db_alice"
    by (simp add: db_alice_def)
  have m: "email \<lparr>name = ''alice'', email = ''alice@x.com'', password = ''Secret123!''\<rparr>
             \<in> set (map user_email (users db_alice))"
    by (simp add: db_alice_def alice_def)
  show ?thesis
    using r m signUp_existing_key_fails [OF r m, of stub_bcrypt env_unset] by simp
qed

section \<open>The login key\<close>

text \<open>
  C8, as stated, fails: \<^verbatim>\<open>Alice@X.com\<close> followed by a space normalises to the stored
  \<^verbatim>\<open>alice@x.com\<close>, yet a login with it finds no record while the login with the stored
  spelling succeeds, and a registration with it stores a second record.
\<close>

theorem login_key_is_not_normalized:
  "normalize_key ''Alice@X.com '' = normalize_key ''alice@x.com''
   \<and> login stub_bcrypt stub_jwt env_unset db_alice
        \<lparr>name = [], email = ''alice@x.com'', password = ''Secret123!''\<rparr>
     = Respond 200 (JObject [(''message'', JStr ''User logged in successfully''),
                             (''token'', JStr ''secret.1h'')])
   \<and> login stub_bcrypt stub_jwt env_unset db_alice
        \<lparr>name = [], email = ''Alice@X.com '', password = ''Secret123!''\<rparr>
     = Forward \<lparr>message = ''User not found'', status = 404,
                errors = JObject [(''email'', JStr ''User not found'')]\<rparr>
   \<and> map user_email (users (snd (signUp stub_bcrypt env_unset db_alice
        \<lparr>name = ''alice'', email = ''Alice@X.com '', password = ''Secret123!''\<rparr>)))
     = [''alice@x.com'', ''Alice@X.com '']"
  by (simp add: normalize_key_def trim_def is_space_def lower_char_def
        login_def signUp_def findUserByEmail_def insertUser_def db_alice_def alice_def
        env_unset_def salt_rounds_def stub_bcrypt_def stub_jwt_def SECRET_def or_default_def
        user_not_found_def new_ApiError_def Let_def)

text \<open>
  C8, amended: login and registration hand the login key to the lookup exactly as
  received. Login answers \<^verbatim>\<open>User not found\<close> exactly when no stored email equals the
  key character for character, registration answers \<^verbatim>\<open>User already exists\<close> exactly
  when one does, and a record the lookup returns has that very key as its email.
\<close>

theorem login_key_used_verbatim:
  assumes "reachable d"
  shows "(login B J e d b = Forward user_not_found)
           = (email b \<notin> set (map user_email (users d)))
         \<and> (fst (signUp B e d b) = Forward user_already_exists)
           = (email b \<in> set (map user_email (users d)))
         \<and> (case findUserByEmail d k of
              Returns (Some u) \<Rightarrow> user_email u = k
            | _ \<Rightarrow> True)"
proof -
  have l: "(login B J e d b = Forward user_not_found)
             = (email b \<notin> set (map user_email (users d)))"
    using assms
    by (auto simp: login_def findUserByEmail_def find_None_iff user_not_found_def
          invalid_password_def new_ApiError_def
          split: option.splits awaited.splits dest: find_email_Some)
  have s: "(fst (signUp B e d b) = Forward user_already_exists)
             = (email b \<in> set (map user_email (users d)))"
    using assms
    by (auto simp: signUp_def findUserByEmail_def find_None_iff user_already_exists_def
          new_ApiError_def
          split: option.splits awaited.splits prod.splits dest: find_email_Some)
  have f: "(case findUserByEmail d k of Returns (Some u) \<Rightarrow> user_email u = k | _ \<Rightarrow> True)"
    by (auto split: awaited.splits option.splits dest: findUserByEmail_Some)
  from l s f show ?thesis by simp
qed

theorem login_key_used_verbatim_witness:
  "reachable db_alice
   \<and> login stub_bcrypt stub_jwt env_unset db_alice
        \<lparr>name = [], email = ''Alice@X.com '', password = ''Secret123!''\<rparr>
     = Forward user_not_found
   \<and> fst (signUp stub_bcrypt env_unset db_alice
        \<lparr>name = ''alice'', email = ''alice@x.com'', password = ''Secret123!''\<rparr>)
     = Forward user_already_exists"
proof -
  have r: "reachable db_alice"
    by (simp add: db_alice_def)
  show ?thesis
    using r
      login_key_used_verbatim [OF r, of stub_bcrypt stub_jwt env_unset
        "\<lparr>name = [], email = ''Alice@X.com '', password = ''Secret123!''\<rparr>" "[]"]
      login_key_used_verbatim [OF r, of stub_bcrypt stub_jwt env_unset
        "\<lparr>name = ''alice'', email = ''alice@x.com'', password = ''Secret123!''\<rparr>" "[]"]
    by (simp add: db_alice_def alice_def)
qed

section \<open>Hashing, then verifying\<close>

lemma hasher_hash_succeeds:
  "min_cost P \<le> c \<Longrightarrow> c \<le> max_cost P \<Longrightarrow> length p \<le> ceiling_len P \<Longrightarrow>
     \<exists>d. hasher_hash P p c s = Inr d"
  by (simp add: hasher_hash_def)

lemma hasher_hash_well_formed:
  "hasher_hash P p c s = Inr d \<Longrightarrow> well_formed P d"
  by (auto simp: hasher_hash_def well_formed_def split: if_splits)

text \<open>
  C7: for every plaintext, cost factor and fresh salt, hashing either fails, which it
  does only for a plaintext beyond the ceiling or a cost factor out of range, or
  produces a digest against which verifying the same plaintext returns true; the same
  holds through \<open>hashSenha\<close> and \<open>compararSenha\<close>.
\<close>

theorem verify_accepts_own_digest:
  "(case hasher_hash P p c s of
      Inl err \<Rightarrow> ceiling_len P < length p \<or> c < min_cost P \<or> max_cost P < c
    | Inr d \<Rightarrow> hasher_verify P p d = Inr True)
   \<and> (case hashSenha P c s p of
      Inl err \<Rightarrow> ceiling_len P < length p \<or> c < min_cost P \<or> max_cost P < c
    | Inr d \<Rightarrow> compararSenha P p d = Inr True)"
  by (simp add: hashSenha_def compararSenha_def hasher_hash_def hasher_verify_def well_formed_def)

lemma verify_accepts_own_digest_example:
  "hashSenha stub_hasher 10 ''salt'' ''Secret123!''
     = Inr \<lparr>digest_algorithm = ''2b'', digest_cost = 10, digest_salt = ''salt'', digest_output = ''!321terceSsalt''\<rparr>
   \<and> compararSenha stub_hasher ''Secret123!''
        \<lparr>digest_algorithm = ''2b'', digest_cost = 10, digest_salt = ''salt'', digest_output = ''!321terceSsalt''\<rparr> = Inr True
   \<and> compararSenha stub_hasher ''wrong''
        \<lparr>digest_algorithm = ''2b'', digest_cost = 10, digest_salt = ''salt'', digest_output = ''!321terceSsalt''\<rparr> = Inr False"
  by (simp add: hashSenha_def compararSenha_def hasher_hash_def hasher_verify_def well_formed_def
        stub_hasher_def)

end
